theory Spec2Isabelle
  imports Main "HOL-Library.Sublist"
begin

section \<open>Python values used by the recommender\<close>

text \<open>
  A Python \<open>str\<close> is a sequence of Unicode code points, so it is modelled as a list of
  naturals: slicing (\<open>s[:10]\<close>), \<open>len\<close> and \<open>strip\<close> then count what Python counts, and the
  non-ASCII characters of the source (the bullet U+2022 of the feedback summary) are one
  element each. \<open>lit\<close> embeds an ASCII literal.
\<close>

type_synonym pystr = "nat list"

definition lit :: "string \<Rightarrow> pystr" where
  "lit s = map of_char s"

text \<open>\<open>"\n"\<close>, and \<open>sep.join(parts)\<close>.\<close>

definition nl :: pystr where
  "nl = [10]"

fun join :: "pystr \<Rightarrow> pystr list \<Rightarrow> pystr" where
  "join sep [] = []"
| "join sep [p] = p"
| "join sep (p # q # ps) = p @ sep @ join sep (q # ps)"

text \<open>\<open>str(n)\<close> for a non-negative integer such as \<open>len(xs)\<close>: its decimal digits.\<close>

function str_nat :: "nat \<Rightarrow> pystr" where
  "str_nat n = (if n < 10 then [48 + n] else str_nat (n div 10) @ [48 + n mod 10])"
  by pat_completeness auto
termination
  by (relation "measure id") auto

declare str_nat.simps [simp del]

text \<open>
  The exceptions the modelled code meets, all of them subclasses of \<open>Exception\<close>, which is
  what every \<open>except\<close> clause of the source catches: \<open>IndexError\<close> and \<open>KeyError\<close> raised by
  the code itself, and \<open>OtherError\<close>, with its message, for whatever a model call or an
  evaluated expression raises. \<open>str_exn\<close> is \<open>str(e)\<close>. What is not an \<open>Exception\<close>
  (\<open>SystemExit\<close>, \<open>KeyboardInterrupt\<close>) is outside the model.
\<close>

datatype exn = IndexError pystr | KeyError pystr | OtherError pystr

fun str_exn :: "exn \<Rightarrow> pystr" where
  "str_exn (IndexError msg) = msg"
| "str_exn (KeyError k) = lit [CHR 0x27] @ k @ lit [CHR 0x27]"
| "str_exn (OtherError msg) = msg"

definition bind_exn :: "exn + 'a \<Rightarrow> ('a \<Rightarrow> exn + 'b) \<Rightarrow> exn + 'b" where
  "bind_exn r f = (case r of Inl e \<Rightarrow> Inl e | Inr x \<Rightarrow> f x)"

section \<open>memory\_system.py: the per-user memory store\<close>

text \<open>
  The memory is the dictionary built by \<open>_load_memory\<close>; its six keys are the fields of a
  record. Prices, ratings and preference values are arbitrary JSON values (\<open>float\<close>,
  \<open>Any\<close>): they are type parameters, and the two places that print them take Python's
  rendering of the value (\<open>str_r\<close> for a rating, \<open>str_v\<close> for a preference value) as an
  argument. \<open>preferences\<close> is an insertion-ordered dictionary, hence an association list.
\<close>

record 'p order_entry =
  ord_dish_id :: pystr
  ord_dish_name :: pystr
  ord_restaurant :: pystr
  ord_price :: 'p
  ord_timestamp :: pystr

record 'r feedback_entry =
  fb_dish_id :: pystr
  fb_dish_name :: pystr
  fb_feedback :: pystr
  fb_rating :: 'r
  fb_timestamp :: pystr

record ('p, 'r, 'v) memory_dict =
  user_id :: pystr
  order_history :: "'p order_entry list"
  recent_feedbacks :: "'r feedback_entry list"
  consolidated_feedback :: pystr
  preferences :: "(pystr \<times> 'v) list"
  created_at :: pystr

text \<open>
  A \<open>MemorySystem\<close> object: the dictionary it holds, and the content of its JSON file
  (\<open>None\<close> while the file does not exist). Writing the file is taken to succeed.
\<close>

record ('p, 'r, 'v) MemorySystem =
  memory :: "('p, 'r, 'v) memory_dict"
  user_file :: "('p, 'r, 'v) memory_dict option"

text \<open>\<open>_load_memory\<close>: the file's content if the file exists, else the fresh dictionary;
  \<open>now\<close> is the reading of the clock (\<open>datetime.now().isoformat()\<close>).\<close>

definition load_memory ::
  "pystr \<Rightarrow> pystr \<Rightarrow> ('p, 'r, 'v) memory_dict option \<Rightarrow> ('p, 'r, 'v) memory_dict" where
  "load_memory uid now file =
     (case file of
        Some m \<Rightarrow> m
      | None \<Rightarrow> \<lparr>user_id = uid, order_history = [], recent_feedbacks = [],
                 consolidated_feedback = [], preferences = [], created_at = now\<rparr>)"

text \<open>\<open>__init__\<close>.\<close>

definition init_memory_system ::
  "pystr \<Rightarrow> pystr \<Rightarrow> ('p, 'r, 'v) memory_dict option \<Rightarrow> ('p, 'r, 'v) MemorySystem" where
  "init_memory_system uid now file = \<lparr>memory = load_memory uid now file, user_file = file\<rparr>"

text \<open>\<open>_save_memory\<close>: the whole dictionary replaces the file's content.\<close>

definition save_memory :: "('p, 'r, 'v) MemorySystem \<Rightarrow> ('p, 'r, 'v) MemorySystem" where
  "save_memory self = self\<lparr>user_file := Some (memory self)\<rparr>"

text \<open>The default of a \<open>timestamp\<close> argument: \<open>None\<close> reads the clock.\<close>

definition timestamp_or_now :: "pystr \<Rightarrow> pystr option \<Rightarrow> pystr" where
  "timestamp_or_now now timestamp = (case timestamp of None \<Rightarrow> now | Some t \<Rightarrow> t)"

definition add_order ::
  "pystr \<Rightarrow> pystr \<Rightarrow> pystr \<Rightarrow> pystr \<Rightarrow> 'p \<Rightarrow> pystr option \<Rightarrow>
   ('p, 'r, 'v) MemorySystem \<Rightarrow> ('p, 'r, 'v) MemorySystem" where
  "add_order now dish_id dish_name restaurant price timestamp self =
     (let order = \<lparr>ord_dish_id = dish_id, ord_dish_name = dish_name,
                    ord_restaurant = restaurant, ord_price = price,
                    ord_timestamp = timestamp_or_now now timestamp\<rparr>;
          m = memory self
      in save_memory (self\<lparr>memory := m\<lparr>order_history := order_history m @ [order]\<rparr>\<rparr>))"

text \<open>The line \<open>_consolidate_oldest_feedback\<close> and \<open>get_memory_context\<close> print for one
  feedback entry, after their different prefixes.\<close>

definition feedback_text :: "('r \<Rightarrow> pystr) \<Rightarrow> 'r feedback_entry \<Rightarrow> pystr" where
  "feedback_text str_r fb =
     fb_dish_name fb @ lit '': '' @ fb_feedback fb @ lit '' '' @
     lit ''(Rating: '' @ str_r (fb_rating fb) @ lit ''/5) - '' @ take 10 (fb_timestamp fb)"

definition summary_addition :: "('r \<Rightarrow> pystr) \<Rightarrow> 'r feedback_entry \<Rightarrow> pystr" where
  "summary_addition str_r oldest = [0x2022, 32] @ feedback_text str_r oldest"

text \<open>\<open>_consolidate_oldest_feedback\<close>: \<open>pop(0)\<close> raises \<open>IndexError\<close> on an empty list.\<close>

definition consolidate_oldest_feedback ::
  "('r \<Rightarrow> pystr) \<Rightarrow> ('p, 'r, 'v) MemorySystem \<Rightarrow> exn + ('p, 'r, 'v) MemorySystem" where
  "consolidate_oldest_feedback str_r self =
     (let m = memory self in
      case recent_feedbacks m of
        [] \<Rightarrow> Inl (IndexError (lit ''pop from empty list''))
      | oldest # rest \<Rightarrow>
          Inr (self\<lparr>memory := m\<lparr>recent_feedbacks := rest,
                 consolidated_feedback :=
                   (if consolidated_feedback m \<noteq> []
                    then consolidated_feedback m @ nl @ summary_addition str_r oldest
                    else lit ''Older Feedback Summary:'' @ nl @ summary_addition str_r oldest)\<rparr>\<rparr>))"

definition add_feedback ::
  "('r \<Rightarrow> pystr) \<Rightarrow> pystr \<Rightarrow> pystr \<Rightarrow> pystr \<Rightarrow> pystr \<Rightarrow> 'r \<Rightarrow> pystr option \<Rightarrow>
   ('p, 'r, 'v) MemorySystem \<Rightarrow> exn + ('p, 'r, 'v) MemorySystem" where
  "add_feedback str_r now dish_id dish_name feedback rating timestamp self =
     (let feedback_entry = \<lparr>fb_dish_id = dish_id, fb_dish_name = dish_name,
                             fb_feedback = feedback, fb_rating = rating,
                             fb_timestamp = timestamp_or_now now timestamp\<rparr>;
          m = memory self;
          self1 = self\<lparr>memory := m\<lparr>recent_feedbacks := recent_feedbacks m @ [feedback_entry]\<rparr>\<rparr>
      in bind_exn
           (if length (recent_feedbacks (memory self1)) > 10
            then consolidate_oldest_feedback str_r self1
            else Inr self1)
           (\<lambda>self2. Inr (save_memory self2)))"

text \<open>\<open>d[k] = v\<close> and \<open>d.update(other)\<close> on an insertion-ordered dictionary: an existing
  key keeps its place and takes the new value, a new key goes to the end.\<close>

fun dict_set :: "('k \<times> 'v) list \<Rightarrow> 'k \<Rightarrow> 'v \<Rightarrow> ('k \<times> 'v) list" where
  "dict_set [] k v = [(k, v)]"
| "dict_set ((k', v') # d) k v = (if k' = k then (k, v) # d else (k', v') # dict_set d k v)"

definition dict_update :: "('k \<times> 'v) list \<Rightarrow> ('k \<times> 'v) list \<Rightarrow> ('k \<times> 'v) list" where
  "dict_update d other = fold (\<lambda>(k, v) d'. dict_set d' k v) other d"

definition update_preferences ::
  "(pystr \<times> 'v) list \<Rightarrow> ('p, 'r, 'v) MemorySystem \<Rightarrow> ('p, 'r, 'v) MemorySystem" where
  "update_preferences prefs self =
     (let m = memory self
      in save_memory (self\<lparr>memory := m\<lparr>preferences := dict_update (preferences m) prefs\<rparr>\<rparr>))"



text \<open>\<open>get_order_history\<close> and \<open>get_recent_feedbacks\<close>.\<close>

definition get_order_history :: "('p, 'r, 'v) MemorySystem \<Rightarrow> 'p order_entry list" where
  "get_order_history self = order_history (memory self)"

definition get_recent_feedbacks :: "('p, 'r, 'v) MemorySystem \<Rightarrow> 'r feedback_entry list" where
  "get_recent_feedbacks self = recent_feedbacks (memory self)"

subsection \<open>Sequences of calls on one memory\<close>

text \<open>
  A client (the UI, \<open>create_sample_user\<close>) mutates a memory through its three methods. A
  call carries its arguments and, where the method reads the clock, the clock's reading.
\<close>

datatype ('p, 'r, 'v) memory_call =
    AddOrder pystr pystr pystr pystr 'p "pystr option"
  | AddFeedback pystr pystr pystr pystr 'r "pystr option"
  | UpdatePreferences "(pystr \<times> 'v) list"

fun do_call ::
  "('r \<Rightarrow> pystr) \<Rightarrow> ('p, 'r, 'v) memory_call \<Rightarrow> ('p, 'r, 'v) MemorySystem \<Rightarrow>
   exn + ('p, 'r, 'v) MemorySystem" where
  "do_call str_r (AddOrder now dish_id dish_name restaurant price timestamp) self =
     Inr (add_order now dish_id dish_name restaurant price timestamp self)"
| "do_call str_r (AddFeedback now dish_id dish_name feedback rating timestamp) self =
     add_feedback str_r now dish_id dish_name feedback rating timestamp self"
| "do_call str_r (UpdatePreferences prefs) self = Inr (update_preferences prefs self)"

text \<open>The calls run in order; an exception ends the run.\<close>

fun do_calls ::
  "('r \<Rightarrow> pystr) \<Rightarrow> ('p, 'r, 'v) memory_call list \<Rightarrow> ('p, 'r, 'v) MemorySystem \<Rightarrow>
   exn + ('p, 'r, 'v) MemorySystem" where
  "do_calls str_r [] self = Inr self"
| "do_calls str_r (c # cs) self = bind_exn (do_call str_r c self) (do_calls str_r cs)"

text \<open>The feedback entry an \<open>add_feedback\<close> call builds, and the entries a sequence of
  calls inserts, in insertion order.\<close>

definition entry_of :: "pystr \<Rightarrow> pystr \<Rightarrow> pystr \<Rightarrow> pystr \<Rightarrow> 'r \<Rightarrow> pystr option \<Rightarrow> 'r feedback_entry" where
  "entry_of now dish_id dish_name feedback rating timestamp =
     \<lparr>fb_dish_id = dish_id, fb_dish_name = dish_name, fb_feedback = feedback,
      fb_rating = rating, fb_timestamp = timestamp_or_now now timestamp\<rparr>"

fun inserted :: "('p, 'r, 'v) memory_call list \<Rightarrow> 'r feedback_entry list" where
  "inserted [] = []"
| "inserted (AddFeedback now dish_id dish_name feedback rating timestamp # cs) =
     entry_of now dish_id dish_name feedback rating timestamp # inserted cs"
| "inserted (_ # cs) = inserted cs"

text \<open>The summary string after the entries \<open>old\<close> were consolidated one by one into \<open>c\<close>.\<close>

definition fold_summary :: "('r \<Rightarrow> pystr) \<Rightarrow> 'r feedback_entry list \<Rightarrow> pystr \<Rightarrow> pystr" where
  "fold_summary str_r old c =
     fold (\<lambda>e c'. if c' \<noteq> [] then c' @ nl @ summary_addition str_r e
                   else lit ''Older Feedback Summary:'' @ nl @ summary_addition str_r e) old c"

text \<open>The last ten elements of a list (all of it when it is shorter), and what comes
  before them.\<close>

definition window :: "'a list \<Rightarrow> 'a list" where
  "window xs = drop (length xs - 10) xs"

definition overflow :: "'a list \<Rightarrow> 'a list" where
  "overflow xs = take (length xs - 10) xs"


subsection \<open>The memory context, section by section\<close>






subsection \<open>A sample session\<close>

text \<open>Feedback calls in the style of \<open>create_sample_user\<close>, with natural numbers for
  prices and ratings, on a user whose file does not exist yet.\<close>

definition sample_call :: "nat \<Rightarrow> (nat, nat, pystr) memory_call" where
  "sample_call i =
     AddFeedback (lit ''2025-01-15T12:00:00'') (lit ''D'' @ str_nat i) (lit ''Dish '' @ str_nat i)
       (lit ''tasty'') (i mod 6) None"

definition sample_calls :: "nat \<Rightarrow> (nat, nat, pystr) memory_call list" where
  "sample_calls n = map sample_call [1..<Suc n]"

definition sample_fresh :: "(nat, nat, pystr) MemorySystem" where
  "sample_fresh = init_memory_system (lit ''user_demo_001'') (lit ''2025-01-15T11:59:00'') None"

section \<open>agent\_system.py: the orchestrator\<close>

subsection \<open>String methods\<close>

text \<open>\<open>text.find(sub)\<close>: the lowest index at which \<open>sub\<close> occurs in \<open>text\<close>, or \<open>-1\<close>.
  \<open>find_from sub text i\<close> searches the suffix \<open>text\<close> that starts at index \<open>i\<close>.\<close>

fun find_from :: "pystr \<Rightarrow> pystr \<Rightarrow> nat \<Rightarrow> int" where
  "find_from sub [] i = (if sub = [] then int i else - 1)"
| "find_from sub (c # cs) i =
     (if take (length sub) (c # cs) = sub then int i else find_from sub cs (Suc i))"

definition py_find :: "pystr \<Rightarrow> pystr \<Rightarrow> int" where
  "py_find text sub = find_from sub text 0"

text \<open>\<open>s[i:j]\<close> for integer bounds: a negative bound counts from the end, and both are
  clipped to the string.\<close>

definition slice_bound :: "nat \<Rightarrow> int \<Rightarrow> nat" where
  "slice_bound n i = (if i < 0 then nat (max 0 (int n + i)) else min n (nat i))"

definition py_slice :: "'a list \<Rightarrow> int \<Rightarrow> int \<Rightarrow> 'a list" where
  "py_slice s i j =
     (let a = slice_bound (length s) i; b = slice_bound (length s) j
      in take (b - a) (drop a s))"

text \<open>\<open>s.strip()\<close> removes leading and trailing whitespace: the code points for which
  \<open>str.isspace\<close> holds.\<close>

definition is_space :: "nat \<Rightarrow> bool" where
  "is_space c \<longleftrightarrow>
     (9 \<le> c \<and> c \<le> 13) \<or> (28 \<le> c \<and> c \<le> 32) \<or> c = 0x85 \<or> c = 0xA0 \<or> c = 0x1680 \<or>
     (0x2000 \<le> c \<and> c \<le> 0x200A) \<or> c = 0x2028 \<or> c = 0x2029 \<or> c = 0x202F \<or>
     c = 0x205F \<or> c = 0x3000"

definition strip :: "pystr \<Rightarrow> pystr" where
  "strip s = rev (dropWhile is_space (rev (dropWhile is_space s)))"

definition startswith :: "pystr \<Rightarrow> pystr \<Rightarrow> bool" where
  "startswith s p \<longleftrightarrow> take (length p) s = p"

text \<open>\<open>s.split(sep)\<close> for a one-character separator.\<close>

fun split_on :: "nat \<Rightarrow> pystr \<Rightarrow> pystr list" where
  "split_on sep [] = [[]]"
| "split_on sep (c # cs) =
     (if c = sep then [] # split_on sep cs
      else (case split_on sep cs of [] \<Rightarrow> [[c]] | p # ps \<Rightarrow> (c # p) # ps))"

subsection \<open>Tag extraction\<close>

text \<open>\<open>_extract_xml_content\<close>.\<close>

definition extract_xml_content :: "pystr \<Rightarrow> pystr \<Rightarrow> pystr option" where
  "extract_xml_content text tag =
     (let start_tag = lit ''<'' @ tag @ lit ''>'';
          end_tag = lit ''</'' @ tag @ lit ''>'';
          start_idx = py_find text start_tag;
          end_idx = py_find text end_tag
      in if start_idx \<noteq> - 1 \<and> end_idx \<noteq> - 1
         then (let start_idx = start_idx + int (length start_tag)
               in Some (strip (py_slice text start_idx end_idx)))
         else None)"

subsection \<open>Tables and the evaluation of a query\<close>

text \<open>
  A \<open>DataFrame\<close> is its column labels and its rows, each row holding one cell per column.
  Cell values (\<open>str\<close>, \<open>int\<close>, \<open>float\<close>, \<open>list\<close>) are a type parameter. \<open>pd.DataFrame()\<close> has
  no columns and no rows; \<open>df.empty\<close> holds when either axis has length 0; \<open>len(df)\<close> is the
  number of rows; \<open>row[c]\<close> raises \<open>KeyError\<close> for a label that is not a column.
\<close>

record 'v DataFrame =
  df_columns :: "pystr list"
  df_rows :: "'v list list"

definition empty_DataFrame :: "'v DataFrame" where
  "empty_DataFrame = \<lparr>df_columns = [], df_rows = []\<rparr>"

definition df_empty :: "'v DataFrame \<Rightarrow> bool" where
  "df_empty df \<longleftrightarrow> df_columns df = [] \<or> df_rows df = []"

definition df_len :: "'v DataFrame \<Rightarrow> nat" where
  "df_len df = length (df_rows df)"

definition row_get :: "pystr list \<Rightarrow> 'v list \<Rightarrow> pystr \<Rightarrow> exn + 'v" where
  "row_get cols row c =
     (case map_of (zip cols row) c of None \<Rightarrow> Inl (KeyError c) | Some v \<Rightarrow> Inr v)"

text \<open>What \<open>eval\<close> can return: a \<open>DataFrame\<close>, or an object of any other type.\<close>

datatype 'v pyobj = PyDataFrame "'v DataFrame" | PyOther

text \<open>What \<open>chat.send_message(input)\<close> followed by the validation and \<open>.text\<close> can do:
  raise, give no usable response (\<open>None\<close>, or an object without \<open>text\<close>), or give a text.\<close>

datatype reply = Raises exn | Invalid | Text pystr

text \<open>
  The orchestrator and the world it calls into. \<open>query_handler\<close> and
  \<open>recommendation_agent\<close> are the two chat sessions, as the answer each gives to the
  message sent in this request. \<open>py_eval\<close> is Python's \<open>eval\<close> of an expression with
  \<open>food_df\<close> and \<open>pd\<close> in scope; \<open>py_format\<close> is the text an f-string prints for a cell;
  \<open>join_tags\<close> is \<open>', '.join(eval(t) if isinstance(t, str) else t)\<close> for a cell \<open>t\<close>, which
  may raise.
\<close>

record 'v AgentSystem =
  query_handler :: "pystr \<Rightarrow> reply"
  recommendation_agent :: "pystr \<Rightarrow> reply"
  py_eval :: "pystr \<Rightarrow> exn + 'v pyobj"
  py_format :: "'v \<Rightarrow> pystr"
  join_tags :: "'v \<Rightarrow> exn + pystr"

text \<open>\<open>_execute_pandas_query\<close>: the table returned, and the lines printed. \<open>clean_query\<close> is
  its clean-up of the query: stripped, and, when it starts with \<open>#\<close>, without its comment
  lines.\<close>

definition clean_query :: "pystr \<Rightarrow> pystr" where
  "clean_query query =
     (let query = strip query
      in if startswith query (lit ''#'')
         then join nl (filter (\<lambda>line. \<not> startswith (strip line) (lit ''#''))
                         (split_on 10 query))
         else query)"

definition execute_pandas_query :: "'v AgentSystem \<Rightarrow> pystr \<Rightarrow> 'v DataFrame \<times> pystr list" where
  "execute_pandas_query self query =
     (let query = clean_query query
      in case py_eval self query of
           Inr (PyDataFrame result) \<Rightarrow> (result, [])
         | Inr PyOther \<Rightarrow> (empty_DataFrame, [])
         | Inl e \<Rightarrow> (empty_DataFrame,
                     [lit ''Error executing pandas query: '' @ str_exn e,
                      lit ''Query was: '' @ query]))"

text \<open>\<open>_format_filtered_data\<close>. The cells of a row are read in the order the f-strings
  read them; the first missing column raises.\<close>

definition format_row :: "'v AgentSystem \<Rightarrow> pystr list \<Rightarrow> 'v list \<Rightarrow> exn + pystr" where
  "format_row self cols row =
     bind_exn (row_get cols row (lit ''dish_name'')) (\<lambda>dish_name.
     bind_exn (row_get cols row (lit ''restaurant'')) (\<lambda>restaurant.
     bind_exn (row_get cols row (lit ''cuisine'')) (\<lambda>cuisine.
     bind_exn (row_get cols row (lit ''category'')) (\<lambda>category.
     bind_exn (row_get cols row (lit ''price'')) (\<lambda>price.
     bind_exn (row_get cols row (lit ''rating'')) (\<lambda>rating.
     bind_exn (row_get cols row (lit ''dietary'')) (\<lambda>dietary.
     bind_exn (row_get cols row (lit ''spice_level'')) (\<lambda>spice_level.
     bind_exn (row_get cols row (lit ''description'')) (\<lambda>description.
     bind_exn (row_get cols row (lit ''tags'')) (\<lambda>tags.
     bind_exn (join_tags self tags) (\<lambda>tag_text.
       Inr (lit ''**'' @ py_format self dish_name @ lit ''** - '' @
              py_format self restaurant @ nl @
            lit ''  Cuisine: '' @ py_format self cuisine @ lit '' | Category: '' @
              py_format self category @ nl @
            lit ''  Price: '' @ [0x201A, 0xC7, 0x3C0] @ py_format self price @
              lit '' | Rating: '' @ py_format self rating @ lit ''/5'' @ nl @
            lit ''  Dietary: '' @ py_format self dietary @ lit '' | Spice: '' @
              py_format self spice_level @ nl @
            lit ''  Description: '' @ py_format self description @ nl @
            lit ''  Tags: '' @ tag_text @ nl @ nl))))))))))))"

fun format_rows :: "'v AgentSystem \<Rightarrow> pystr list \<Rightarrow> 'v list list \<Rightarrow> pystr \<Rightarrow> exn + pystr" where
  "format_rows self cols [] formatted = Inr formatted"
| "format_rows self cols (row # rows) formatted =
     bind_exn (format_row self cols row) (\<lambda>s. format_rows self cols rows (formatted @ s))"

definition format_filtered_data :: "'v AgentSystem \<Rightarrow> 'v DataFrame \<Rightarrow> exn + pystr" where
  "format_filtered_data self df =
     (if df_empty df then Inr (lit ''No matching dishes found in database.'')
      else format_rows self (df_columns df) (df_rows df)
             (lit ''Found '' @ str_nat (df_len df) @ lit '' matching dishes:'' @ nl @ nl))"

subsection \<open>The orchestration\<close>

text \<open>The \<open>debug_info\<close> dictionary: four keys from the start, four set on the way.\<close>

record debug_info =
  dbg_query :: pystr
  dbg_timestamp :: pystr
  database_searched :: bool
  filtered_dishes_count :: nat
  handler_response :: "pystr option"
  dbg_pandas_query :: "pystr option"
  filtered_data_preview :: "pystr option"
  final_response :: "pystr option"

datatype agent = QueryHandler | RecommendationAgent

text \<open>
  What one \<open>process_query\<close> call does: what it returns (the pair of response and
  \<open>debug_info\<close>) or the exception that leaves it, the messages it sent to the two chat
  sessions, in order, and the lines it printed.
\<close>

record outcome =
  returned :: "exn + pystr \<times> debug_info"
  sent :: "(agent \<times> pystr) list"
  printed :: "pystr list"

definition make_handler_input :: "pystr \<Rightarrow> pystr \<Rightarrow> pystr \<Rightarrow> pystr" where
  "make_handler_input current_time user_query memory_context =
     lit ''Current Time: '' @ current_time @ nl @ nl @
     lit ''User Query: '' @ user_query @ nl @ nl @
     lit ''User Memory Context:'' @ nl @ memory_context @ nl @ nl @
     lit ''Analyze the query and decide if we need to search the food database.''"

definition make_recommendation_input :: "pystr \<Rightarrow> pystr \<Rightarrow> pystr \<Rightarrow> pystr \<Rightarrow> pystr" where
  "make_recommendation_input current_time user_query memory_context filtered_data_context =
     (let recommendation_input =
            lit ''Current Time: '' @ current_time @ nl @ nl @
            lit ''User Query: '' @ user_query @ nl @ nl @
            lit ''User Memory Context:'' @ nl @ memory_context @ nl @ nl;
          recommendation_input =
            (if filtered_data_context \<noteq> []
             then recommendation_input @ nl @
                  lit ''Available Dishes (from database search):'' @ nl @ filtered_data_context
             else recommendation_input)
      in recommendation_input @ nl @ nl @ lit ''Provide your personalized recommendation:'')"

text \<open>Step 3 of \<open>process_query\<close>: the recommendation call and its three endings.\<close>

definition generate ::
  "'v AgentSystem \<Rightarrow> pystr \<Rightarrow> debug_info \<Rightarrow> exn + pystr \<times> debug_info" where
  "generate self recommendation_input debug_info =
     (case recommendation_agent self recommendation_input of
        Raises e \<Rightarrow> Inr (lit ''Sorry, an error occurred: '' @ str_exn e, debug_info)
      | Invalid \<Rightarrow>
          Inr (lit ''Sorry, I couldn'' @ [39] @
               lit ''t generate recommendations at this moment. Please try again.'', debug_info)
      | Text final_text \<Rightarrow> Inr (final_text, debug_info\<lparr>final_response := Some final_text\<rparr>))"

text \<open>\<open>process_query\<close>; \<open>now_iso\<close> and \<open>current_time\<close> are its two readings of the clock.
  \<open>if pandas_query:\<close> holds for a string that is neither \<open>None\<close> nor empty.\<close>

definition process_query ::
  "'v AgentSystem \<Rightarrow> pystr \<Rightarrow> pystr \<Rightarrow> pystr \<Rightarrow> pystr \<Rightarrow> outcome" where
  "process_query self now_iso current_time user_query memory_context =
     (let debug_info = \<lparr>dbg_query = user_query, dbg_timestamp = now_iso,
                         database_searched = False, filtered_dishes_count = 0,
                         handler_response = None, dbg_pandas_query = None,
                         filtered_data_preview = None, final_response = None\<rparr>;
          handler_input = make_handler_input current_time user_query memory_context
      in case query_handler self handler_input of
           Raises e \<Rightarrow>
             \<lparr>returned = Inr (lit ''Sorry, an error occurred: '' @ str_exn e, debug_info),
              sent = [(QueryHandler, handler_input)], printed = []\<rparr>
         | Invalid \<Rightarrow>
             \<lparr>returned = Inr (lit ''Sorry, I couldn'' @ [39] @
                              lit ''t process your query. Please try again.'', debug_info),
              sent = [(QueryHandler, handler_input)], printed = []\<rparr>
         | Text handler_text \<Rightarrow>
             (let debug_info = debug_info\<lparr>handler_response := Some handler_text\<rparr>;
                  pandas_query = extract_xml_content handler_text (lit ''pandas_query'');
                  no_db_needed = extract_xml_content handler_text (lit ''no_database_needed'');
                  filtered_data_context = []
              in case pandas_query of
                   Some (q # qs) \<Rightarrow>
                     (let debug_info = debug_info\<lparr>database_searched := True,
                                                    dbg_pandas_query := Some (q # qs)\<rparr>;
                          (filtered_df, out) = execute_pandas_query self (q # qs);
                          debug_info = debug_info\<lparr>filtered_dishes_count := df_len filtered_df\<rparr>
                      in case format_filtered_data self filtered_df of
                           Inl e \<Rightarrow>
                             \<lparr>returned = Inl e, sent = [(QueryHandler, handler_input)],
                              printed = out\<rparr>
                         | Inr filtered_data_context \<Rightarrow>
                             (let debug_info = debug_info\<lparr>filtered_data_preview :=
                                                  Some (take 500 filtered_data_context)\<rparr>;
                                  recommendation_input =
                                    make_recommendation_input current_time user_query memory_context
                                      filtered_data_context
                              in \<lparr>returned = generate self recommendation_input debug_info,
                                  sent = [(QueryHandler, handler_input),
                                          (RecommendationAgent, recommendation_input)],
                                  printed = out\<rparr>))
                 | _ \<Rightarrow>
                     (let recommendation_input =
                            make_recommendation_input current_time user_query memory_context
                              filtered_data_context
                      in \<lparr>returned = generate self recommendation_input debug_info,
                          sent = [(QueryHandler, handler_input),
                                  (RecommendationAgent, recommendation_input)],
                          printed = []\<rparr>)))"

section \<open>food\_database.py: the catalog\<close>

text \<open>
  A cell of the catalog table is a Python \<open>str\<close>, \<open>int\<close>, \<open>float\<close> or list of strings. A
  float is named by its shortest decimal literal (its \<open>repr\<close>, which determines it).
\<close>

datatype cell = CStr pystr | CInt int | CFloat pystr | CList "pystr list"

text \<open>One dictionary of \<open>foods_data\<close>, as the row \<open>pd.DataFrame(foods_data)\<close> makes of it:
  the values in the order of the keys.\<close>

definition food ::
  "pystr \<Rightarrow> pystr \<Rightarrow> pystr \<Rightarrow> pystr \<Rightarrow> pystr \<Rightarrow> int \<Rightarrow> pystr \<Rightarrow> pystr \<Rightarrow> pystr \<Rightarrow> int \<Rightarrow>
   pystr list \<Rightarrow> pystr \<Rightarrow> cell list" where
  "food dish_id dish_name restaurant cuisine category price rating dietary spice_level
     prep_time_mins tags description =
     [CStr dish_id, CStr dish_name, CStr restaurant, CStr cuisine, CStr category, CInt price,
      CFloat rating, CStr dietary, CStr spice_level, CInt prep_time_mins, CList tags,
      CStr description]"

definition food_columns :: "pystr list" where
  "food_columns =
     [lit ''dish_id'', lit ''dish_name'', lit ''restaurant'', lit ''cuisine'', lit ''category'',
      lit ''price'', lit ''rating'', lit ''dietary'', lit ''spice_level'', lit ''prep_time_mins'',
      lit ''tags'', lit ''description'']"

definition foods_data :: "cell list list" where
  "foods_data =
    [food (lit ''D001'') (lit ''Butter Chicken'') (lit ''Punjab Grill'')
       (lit ''North Indian'') (lit ''Main Course'') 380 (lit ''4.5'')
       (lit ''Non-Vegetarian'') (lit ''Medium'') 25
       [lit ''Creamy'', lit ''Popular'', lit ''Rich'']
       (lit ''Tender chicken in rich tomato-butter gravy''),
     food (lit ''D002'') (lit ''Paneer Tikka Masala'') (lit ''Punjab Grill'')
       (lit ''North Indian'') (lit ''Main Course'') 320 (lit ''4.4'')
       (lit ''Vegetarian'') (lit ''Medium'') 20
       [lit ''Creamy'', lit ''Popular'', lit ''Protein-Rich'']
       (lit ''Grilled cottage cheese in spiced tomato gravy''),
     food (lit ''D003'') (lit ''Margherita Pizza'') (lit ''Pizza Hub'')
       (lit ''Italian'') (lit ''Main Course'') 280 (lit ''4.3'')
       (lit ''Vegetarian'') (lit ''None'') 18
       [lit ''Cheesy'', lit ''Classic'', lit ''Quick'']
       (lit ''Classic pizza with mozzarella and basil''),
     food (lit ''D004'') (lit ''Chicken Biryani'') (lit ''Biryani Blues'')
       (lit ''Hyderabadi'') (lit ''Main Course'') 350 (lit ''4.7'')
       (lit ''Non-Vegetarian'') (lit ''Medium'') 30
       [lit ''Aromatic'', lit ''Filling'', lit ''Traditional'']
       (lit ''Fragrant basmati rice with tender chicken''),
     food (lit ''D005'') (lit ''Veg Hakka Noodles'') (lit ''Wok Express'')
       (lit ''Chinese'') (lit ''Main Course'') 180 (lit ''4.2'')
       (lit ''Vegetarian'') (lit ''Medium'') 15
       [lit ''Quick'', lit ''Light'', lit ''Stir-Fried'']
       (lit ''Stir-fried noodles with vegetables''),
     food (lit ''D006'') (lit ''Masala Dosa'') (lit ''South Spice'')
       (lit ''South Indian'') (lit ''Main Course'') 120 (lit ''4.6'')
       (lit ''Vegetarian'') (lit ''Medium'') 20
       [lit ''Crispy'', lit ''Traditional'', lit ''Healthy'']
       (lit ''Crispy rice crepe with spiced potato filling''),
     food (lit ''D007'') (lit ''Chicken Fried Rice'') (lit ''Wok Express'')
       (lit ''Chinese'') (lit ''Main Course'') 220 (lit ''4.3'')
       (lit ''Non-Vegetarian'') (lit ''Low'') 15
       [lit ''Quick'', lit ''Filling'', lit ''Savory'']
       (lit ''Stir-fried rice with chicken and vegetables''),
     food (lit ''D008'') (lit ''Chocolate Brownie'') (lit ''Dessert Dreams'')
       (lit ''Continental'') (lit ''Dessert'') 150 (lit ''4.5'')
       (lit ''Vegetarian'') (lit ''None'') 10
       [lit ''Sweet'', lit ''Chocolatey'', lit ''Indulgent'']
       (lit ''Rich chocolate brownie with ice cream''),
     food (lit ''D009'') (lit ''Caesar Salad'') (lit ''Healthy Bites'')
       (lit ''Continental'') (lit ''Appetizer'') 200 (lit ''4.1'')
       (lit ''Non-Vegetarian'') (lit ''None'') 10
       [lit ''Healthy'', lit ''Fresh'', lit ''Light'']
       (lit ''Crisp romaine with Caesar dressing and chicken''),
     food (lit ''D010'') (lit ''Gulab Jamun'') (lit ''Sweet Tooth'')
       (lit ''Indian'') (lit ''Dessert'') 80 (lit ''4.4'')
       (lit ''Vegetarian'') (lit ''None'') 5
       [lit ''Sweet'', lit ''Traditional'', lit ''Popular'']
       (lit ''Deep-fried milk balls in sugar syrup''),
     food (lit ''D011'') (lit ''Fish Curry'') (lit ''Coastal Kitchen'')
       (lit ''Coastal'') (lit ''Main Course'') 400 (lit ''4.6'')
       (lit ''Non-Vegetarian'') (lit ''High'') 25
       [lit ''Spicy'', lit ''Tangy'', lit ''Traditional'']
       (lit ''Fresh fish in coconut-based spicy curry''),
     food (lit ''D012'') (lit ''Veg Burger'') (lit ''Burger Town'')
       (lit ''American'') (lit ''Main Course'') 150 (lit ''4.0'')
       (lit ''Vegetarian'') (lit ''Low'') 12
       [lit ''Quick'', lit ''Filling'', lit ''Casual'']
       (lit ''Vegetable patty with fresh veggies and sauces''),
     food (lit ''D013'') (lit ''Chole Bhature'') (lit ''Punjabi Zaika'')
       (lit ''North Indian'') (lit ''Main Course'') 140 (lit ''4.5'')
       (lit ''Vegetarian'') (lit ''Medium'') 20
       [lit ''Filling'', lit ''Traditional'', lit ''Popular'']
       (lit ''Spicy chickpea curry with fried bread''),
     food (lit ''D014'') (lit ''Pad Thai'') (lit ''Thai Basil'')
       (lit ''Thai'') (lit ''Main Course'') 320 (lit ''4.4'')
       (lit ''Non-Vegetarian'') (lit ''Medium'') 20
       [lit ''Tangy'', lit ''Sweet'', lit ''Exotic'']
       (lit ''Stir-fried rice noodles with shrimp and peanuts''),
     food (lit ''D015'') (lit ''Idli Sambar'') (lit ''South Spice'')
       (lit ''South Indian'') (lit ''Main Course'') 100 (lit ''4.5'')
       (lit ''Vegetarian'') (lit ''Low'') 15
       [lit ''Healthy'', lit ''Light'', lit ''Traditional'']
       (lit ''Steamed rice cakes with lentil soup''),
     food (lit ''D016'') (lit ''Chicken Wings'') (lit ''Wings & Things'')
       (lit ''American'') (lit ''Appetizer'') 280 (lit ''4.3'')
       (lit ''Non-Vegetarian'') (lit ''High'') 18
       [lit ''Spicy'', lit ''Crispy'', lit ''Popular'']
       (lit ''Crispy chicken wings with hot sauce''),
     food (lit ''D017'') (lit ''Paneer Wrap'') (lit ''Quick Bites'')
       (lit ''Fusion'') (lit ''Main Course'') 160 (lit ''4.2'')
       (lit ''Vegetarian'') (lit ''Medium'') 10
       [lit ''Quick'', lit ''Filling'', lit ''Portable'']
       (lit ''Grilled paneer with veggies in wrap''),
     food (lit ''D018'') (lit ''Mutton Rogan Josh'') (lit ''Kashmir Kitchen'')
       (lit ''Kashmiri'') (lit ''Main Course'') 450 (lit ''4.7'')
       (lit ''Non-Vegetarian'') (lit ''High'') 35
       [lit ''Rich'', lit ''Aromatic'', lit ''Premium'']
       (lit ''Tender mutton in aromatic red curry''),
     food (lit ''D019'') (lit ''Mango Lassi'') (lit ''Lassi Corner'')
       (lit ''Indian'') (lit ''Beverage'') 80 (lit ''4.6'')
       (lit ''Vegetarian'') (lit ''None'') 5
       [lit ''Refreshing'', lit ''Sweet'', lit ''Cooling'']
       (lit ''Yogurt-based mango drink''),
     food (lit ''D020'') (lit ''Veg Thali'') (lit ''Rajdhani Thali'')
       (lit ''Rajasthani'') (lit ''Main Course'') 300 (lit ''4.6'')
       (lit ''Vegetarian'') (lit ''Medium'') 25
       [lit ''Complete Meal'', lit ''Variety'', lit ''Traditional'']
       (lit ''Complete meal with dal, vegetables, roti, rice, dessert'')]"

text \<open>\<open>create_food_database\<close>.\<close>

definition create_food_database :: "cell DataFrame" where
  "create_food_database = \<lparr>df_columns = food_columns, df_rows = foods_data\<rparr>"




subsection \<open>The two pandas calls on the seed table\<close>


definition str_int :: "int \<Rightarrow> pystr" where
  "str_int i = (if i < 0 then lit ''-'' @ str_nat (nat (- i)) else str_nat (nat i))"

definition repr_str :: "pystr \<Rightarrow> pystr" where
  "repr_str s = [39] @ s @ [39]"

fun str_cell :: "cell \<Rightarrow> pystr" where
  "str_cell (CStr s) = s"
| "str_cell (CInt i) = str_int i"
| "str_cell (CFloat d) = d"
| "str_cell (CList ts) = lit ''['' @ join (lit '', '') (map repr_str ts) @ lit '']''"









section \<open>Notions the properties of the orchestrator are stated with\<close>


text \<open>The opening and the closing tag of a tag name.\<close>

definition start_tag_of :: "pystr \<Rightarrow> pystr" where
  "start_tag_of tag = lit ''<'' @ tag @ lit ''>''"

definition end_tag_of :: "pystr \<Rightarrow> pystr" where
  "end_tag_of tag = lit ''</'' @ tag @ lit ''>''"

text \<open>
  What \<open>process_query\<close> does when the handler answered \<open>handler_text\<close> and there is no
  filter expression: nothing is searched, the recommendation agent is sent the input
  without a dishes section, and the result is what the generation step makes of its answer.
\<close>

definition no_filter_outcome ::
  "'v AgentSystem \<Rightarrow> pystr \<Rightarrow> pystr \<Rightarrow> pystr \<Rightarrow> pystr \<Rightarrow> pystr \<Rightarrow> outcome" where
  "no_filter_outcome self now_iso current_time user_query memory_context handler_text =
     \<lparr>returned =
        generate self (make_recommendation_input current_time user_query memory_context [])
          \<lparr>dbg_query = user_query, dbg_timestamp = now_iso,
           database_searched = False, filtered_dishes_count = 0,
           handler_response = Some handler_text, dbg_pandas_query = None,
           filtered_data_preview = None, final_response = None\<rparr>,
      sent = [(QueryHandler, make_handler_input current_time user_query memory_context),
              (RecommendationAgent,
               make_recommendation_input current_time user_query memory_context [])],
      printed = []\<rparr>"

section \<open>A sample world\<close>

text \<open>
  An orchestrator over the seed catalog. \<open>select_columns\<close> is \<open>df[[c1, ...]]\<close> for labels
  that are columns of \<open>df\<close>. The sample handler asks for the names of all dishes
  (\<open>names_query\<close> is \<open>food_df[['dish_name']]\<close>); the sample \<open>eval\<close> knows four expressions:
  that projection, \<open>pd.DataFrame()\<close>, \<open>len(food_df)\<close> and \<open>1/0\<close>, and raises on any other. The
  sample \<open>join_tags\<close> joins a list of tags and raises on any other cell.
\<close>

definition select_columns :: "pystr list \<Rightarrow> 'v DataFrame \<Rightarrow> 'v DataFrame" where
  "select_columns cs df =
     \<lparr>df_columns = cs,
      df_rows = map (\<lambda>row. map (\<lambda>c. the (map_of (zip (df_columns df) row) c)) cs) (df_rows df)\<rparr>"

definition names_query :: pystr where
  "names_query = lit ''food_df[['' @ [39] @ lit ''dish_name'' @ [39] @ lit '']]''"

definition sample_eval :: "pystr \<Rightarrow> exn + cell pyobj" where
  "sample_eval expr =
     (if expr = names_query
      then Inr (PyDataFrame (select_columns [lit ''dish_name''] create_food_database))
      else if expr = lit ''pd.DataFrame()'' then Inr (PyDataFrame empty_DataFrame)
      else if expr = lit ''len(food_df)'' then Inr PyOther
      else if expr = lit ''1/0'' then Inl (OtherError (lit ''division by zero''))
      else Inl (OtherError (lit ''invalid syntax'')))"

definition sample_join_tags :: "cell \<Rightarrow> exn + pystr" where
  "sample_join_tags t =
     (case t of
        CList ts \<Rightarrow> Inr (join (lit '', '') ts)
      | _ \<Rightarrow> Inl (OtherError (lit ''can only join an iterable'')))"

definition sample_agents :: "cell AgentSystem" where
  "sample_agents =
     \<lparr>query_handler = (\<lambda>_. Text (lit ''<pandas_query>'' @ names_query @ lit ''</pandas_query>'')),
      recommendation_agent = (\<lambda>_. Text (lit ''1. **Masala Dosa - South Spice**'')),
      py_eval = sample_eval,
      py_format = str_cell,
      join_tags = sample_join_tags\<rparr>"


definition sample_agents_untagged :: "cell AgentSystem" where
  "sample_agents_untagged =
     sample_agents\<lparr>query_handler := (\<lambda>_. Text (lit ''No search is needed here.''))\<rparr>"

section \<open>Properties of the memory store\<close>

subsection \<open>One call, and a sequence of calls\<close>

text \<open>\<open>add_feedback\<close> never raises: the list it pops from holds at least the entry it has
  just appended.\<close>

lemma add_feedback_eq:
  "add_feedback str_r now did dn f r ts self =
     (let e = entry_of now did dn f r ts; m = memory self; xs = recent_feedbacks m @ [e];
          m' = (if length xs > 10
                then m\<lparr>recent_feedbacks := tl xs,
                       consolidated_feedback := fold_summary str_r [hd xs] (consolidated_feedback m)\<rparr>
                else m\<lparr>recent_feedbacks := xs\<rparr>) in
      Inr \<lparr>memory = m', user_file = Some m'\<rparr>)"
  by (cases "recent_feedbacks (memory self)")
     (auto simp: add_feedback_def entry_of_def consolidate_oldest_feedback_def bind_exn_def
      save_memory_def fold_summary_def Let_def)

lemma window_snoc:
  "length xs \<le> 10 \<Longrightarrow> window (xs @ [e]) = (if length xs = 10 then tl (xs @ [e]) else xs @ [e])"
  by (cases xs) (auto simp: window_def)

lemma overflow_snoc:
  "length xs \<le> 10 \<Longrightarrow> overflow (xs @ [e]) = (if length xs = 10 then [hd (xs @ [e])] else [])"
  by (cases xs) (auto simp: overflow_def)

lemma window_short: "length xs \<le> 10 \<Longrightarrow> window xs = xs"
  by (simp add: window_def)

lemma overflow_short: "length xs \<le> 10 \<Longrightarrow> overflow xs = []"
  by (simp add: overflow_def)

lemma length_window: "length (window xs) = min (length xs) 10"
  by (simp add: window_def)

lemma do_call_shape:
  assumes "length (recent_feedbacks (memory self)) \<le> 10"
  shows "\<exists>self'. do_call str_r c self = Inr self' \<and>
           recent_feedbacks (memory self') = window (recent_feedbacks (memory self) @ inserted [c]) \<and>
           consolidated_feedback (memory self') =
             fold_summary str_r (overflow (recent_feedbacks (memory self) @ inserted [c]))
               (consolidated_feedback (memory self))"
proof (cases c)
  case (AddOrder now did dn rest p ts)
  then show ?thesis using assms
    by (simp add: add_order_def save_memory_def window_short overflow_short fold_summary_def Let_def)
next
  case (AddFeedback now did dn f r ts)
  then show ?thesis using assms
    by (simp add: add_feedback_eq window_snoc overflow_snoc Let_def) (simp add: fold_summary_def)
next
  case (UpdatePreferences prefs)
  then show ?thesis using assms
    by (simp add: update_preferences_def save_memory_def window_short overflow_short fold_summary_def Let_def)
qed

lemma window_window: "window (window xs @ ys) = window (xs @ ys)"
proof (cases "length xs \<le> 10")
  case True
  then show ?thesis by (simp add: window_short)
next
  case False
  then obtain k where k: "length xs = 10 + k"
    by (metis le_add_diff_inverse nat_le_linear)
  have "window (xs @ ys) = drop (k + length ys) (xs @ ys)"
    by (simp add: window_def k)
  also have "\<dots> = drop (length ys) (drop k xs @ ys)"
    by (simp add: k add.commute)
  also have "\<dots> = window (window xs @ ys)"
    by (simp add: window_def k)
  finally show ?thesis by simp
qed

lemma overflow_split: "overflow xs @ overflow (window xs @ ys) = overflow (xs @ ys)"
proof (cases "length xs \<le> 10")
  case True
  then show ?thesis by (simp add: window_short overflow_short)
next
  case False
  then obtain k where k: "length xs = 10 + k"
    by (metis le_add_diff_inverse nat_le_linear)
  have "overflow (xs @ ys) = take (k + length ys) (xs @ ys)"
    by (simp add: overflow_def k)
  also have "\<dots> = take k xs @ take (length ys) (drop k xs @ ys)"
    by (simp add: take_add k)
  also have "\<dots> = overflow xs @ overflow (window xs @ ys)"
    by (simp add: window_def overflow_def k)
  finally show ?thesis by simp
qed

lemma fold_summary_append:
  "fold_summary str_r (xs @ ys) c = fold_summary str_r ys (fold_summary str_r xs c)"
  by (simp add: fold_summary_def)

lemma do_calls_append:
  "do_calls str_r (cs @ ds) self = bind_exn (do_calls str_r cs self) (do_calls str_r ds)"
  by (induction cs arbitrary: self) (auto simp: bind_exn_def split: sum.splits)

lemma inserted_append: "inserted (cs @ ds) = inserted cs @ inserted ds"
  by (induction cs rule: inserted.induct) auto

lemma do_calls_shape:
  assumes "length (recent_feedbacks (memory self)) \<le> 10"
  shows "\<exists>self'. do_calls str_r cs self = Inr self' \<and>
           recent_feedbacks (memory self') = window (recent_feedbacks (memory self) @ inserted cs) \<and>
           consolidated_feedback (memory self') =
             fold_summary str_r (overflow (recent_feedbacks (memory self) @ inserted cs))
               (consolidated_feedback (memory self))"
proof (induction cs rule: rev_induct)
  case Nil
  then show ?case using assms by (simp add: window_short overflow_short fold_summary_def)
next
  case (snoc c cs)
  then obtain s1 where s1: "do_calls str_r cs self = Inr s1"
    and r1: "recent_feedbacks (memory s1) = window (recent_feedbacks (memory self) @ inserted cs)"
    and c1: "consolidated_feedback (memory s1) =
             fold_summary str_r (overflow (recent_feedbacks (memory self) @ inserted cs))
               (consolidated_feedback (memory self))"
    by blast
  have "length (recent_feedbacks (memory s1)) \<le> 10" by (simp add: r1 length_window)
  from do_call_shape [OF this, of str_r c]
  obtain s2 where s2: "do_call str_r c s1 = Inr s2"
    and r2: "recent_feedbacks (memory s2) = window (recent_feedbacks (memory s1) @ inserted [c])"
    and c2: "consolidated_feedback (memory s2) =
             fold_summary str_r (overflow (recent_feedbacks (memory s1) @ inserted [c]))
               (consolidated_feedback (memory s1))"
    by blast
  have "do_calls str_r (cs @ [c]) self = Inr s2"
    by (simp add: do_calls_append s1 s2 bind_exn_def)
  moreover have "recent_feedbacks (memory s2) = window (recent_feedbacks (memory self) @ inserted (cs @ [c]))"
    by (simp add: r2 r1 window_window inserted_append)
  moreover have "consolidated_feedback (memory s2) =
             fold_summary str_r (overflow (recent_feedbacks (memory self) @ inserted (cs @ [c])))
               (consolidated_feedback (memory self))"
    unfolding c2 c1 r1 inserted_append fold_summary_append [symmetric]
    using overflow_split [of "recent_feedbacks (memory self) @ inserted cs" "inserted [c]"]
    by simp
  ultimately show ?case by blast
qed

lemma fresh_memory [simp]:
  "recent_feedbacks (memory (init_memory_system uid t0 None)) = []"
  "consolidated_feedback (memory (init_memory_system uid t0 None)) = []"
  "order_history (memory (init_memory_system uid t0 None)) = []"
  "preferences (memory (init_memory_system uid t0 None)) = []"
  by (simp_all add: init_memory_system_def load_memory_def)

lemma fresh_calls_shape:
  "\<exists>self. do_calls str_r cs (init_memory_system uid t0 None) = Inr self \<and>
          recent_feedbacks (memory self) = window (inserted cs) \<and>
          consolidated_feedback (memory self) = fold_summary str_r (overflow (inserted cs)) []"
  using do_calls_shape [of "init_memory_system uid t0 None" str_r cs] by simp


subsection \<open>The bounded window\<close>

text \<open>
  Claim C1. On a memory created without a pre-existing file, whatever sequence of
  \<open>add_order\<close>, \<open>add_feedback\<close> and \<open>update_preferences\<close> calls has run, the calls have all
  returned and the recent-feedback window holds at most 10 entries; and any further
  \<open>add_feedback\<close> call returns, leaves at most 10 entries, and, when its insertion makes the
  window exceed 10, removes exactly the oldest entry of the window and folds exactly that
  entry's line into the consolidated summary (otherwise it only appends to the window).
\<close>

theorem window_at_most_ten:
  "\<exists>self. do_calls str_r calls (init_memory_system uid t0 None) = Inr self \<and>
     length (recent_feedbacks (memory self)) \<le> 10 \<and>
     (\<forall>now did dn f r ts. \<exists>self'.
        add_feedback str_r now did dn f r ts self = Inr self' \<and>
        length (recent_feedbacks (memory self')) \<le> 10 \<and>
        (10 < length (recent_feedbacks (memory self) @ [entry_of now did dn f r ts]) \<longrightarrow>
           recent_feedbacks (memory self') =
             tl (recent_feedbacks (memory self)) @ [entry_of now did dn f r ts] \<and>
           consolidated_feedback (memory self') =
             (if consolidated_feedback (memory self) \<noteq> []
              then consolidated_feedback (memory self) @ nl @
                   summary_addition str_r (hd (recent_feedbacks (memory self)))
              else lit ''Older Feedback Summary:'' @ nl @
                   summary_addition str_r (hd (recent_feedbacks (memory self))))) \<and>
        (length (recent_feedbacks (memory self) @ [entry_of now did dn f r ts]) \<le> 10 \<longrightarrow>
           recent_feedbacks (memory self') =
             recent_feedbacks (memory self) @ [entry_of now did dn f r ts] \<and>
           consolidated_feedback (memory self') = consolidated_feedback (memory self)))"
proof -
  obtain self where run: "do_calls str_r calls (init_memory_system uid t0 None) = Inr self"
    and rec: "recent_feedbacks (memory self) = window (inserted calls)"
    using fresh_calls_shape [of str_r calls uid t0] by blast
  have len: "length (recent_feedbacks (memory self)) \<le> 10"
    by (simp add: rec length_window)
  have "\<exists>self'. add_feedback str_r now did dn f r ts self = Inr self' \<and>
        length (recent_feedbacks (memory self')) \<le> 10 \<and>
        (10 < length (recent_feedbacks (memory self) @ [entry_of now did dn f r ts]) \<longrightarrow>
           recent_feedbacks (memory self') =
             tl (recent_feedbacks (memory self)) @ [entry_of now did dn f r ts] \<and>
           consolidated_feedback (memory self') =
             (if consolidated_feedback (memory self) \<noteq> []
              then consolidated_feedback (memory self) @ nl @
                   summary_addition str_r (hd (recent_feedbacks (memory self)))
              else lit ''Older Feedback Summary:'' @ nl @
                   summary_addition str_r (hd (recent_feedbacks (memory self))))) \<and>
        (length (recent_feedbacks (memory self) @ [entry_of now did dn f r ts]) \<le> 10 \<longrightarrow>
           recent_feedbacks (memory self') =
             recent_feedbacks (memory self) @ [entry_of now did dn f r ts] \<and>
           consolidated_feedback (memory self') = consolidated_feedback (memory self))"
    for now did dn f r ts
    using len by (cases "recent_feedbacks (memory self)")
      (simp_all add: add_feedback_eq Let_def fold_summary_def)
  with run len show ?thesis by blast
qed

lemma length_sample: "length (inserted (sample_calls 10)) = 10"
  by code_simp

theorem window_at_most_ten_witness:
  "\<exists>self self'.
     do_calls str_nat (sample_calls 10) sample_fresh = Inr self \<and>
     length (recent_feedbacks (memory self)) = 10 \<and>
     add_feedback str_nat (lit ''2025-01-16T09:30:00'') (lit ''D11'') (lit ''Dish 11'')
       (lit ''fine'') 4 None self = Inr self' \<and>
     length (recent_feedbacks (memory self')) = 10 \<and>
     recent_feedbacks (memory self') =
       tl (recent_feedbacks (memory self)) @
       [entry_of (lit ''2025-01-16T09:30:00'') (lit ''D11'') (lit ''Dish 11'') (lit ''fine'') 4 None] \<and>
     consolidated_feedback (memory self') =
       lit ''Older Feedback Summary:'' @ nl @
       summary_addition str_nat (hd (recent_feedbacks (memory self)))"
proof -
  obtain self where run: "do_calls str_nat (sample_calls 10) sample_fresh = Inr self"
    and step: "\<And>now did dn f r ts. \<exists>self'.
        add_feedback str_nat now did dn f r ts self = Inr self' \<and>
        length (recent_feedbacks (memory self')) \<le> 10 \<and>
        (10 < length (recent_feedbacks (memory self) @ [entry_of now did dn f r ts]) \<longrightarrow>
           recent_feedbacks (memory self') =
             tl (recent_feedbacks (memory self)) @ [entry_of now did dn f r ts] \<and>
           consolidated_feedback (memory self') =
             (if consolidated_feedback (memory self) \<noteq> []
              then consolidated_feedback (memory self) @ nl @
                   summary_addition str_nat (hd (recent_feedbacks (memory self)))
              else lit ''Older Feedback Summary:'' @ nl @
                   summary_addition str_nat (hd (recent_feedbacks (memory self))))) \<and>
        (length (recent_feedbacks (memory self) @ [entry_of now did dn f r ts]) \<le> 10 \<longrightarrow>
           recent_feedbacks (memory self') =
             recent_feedbacks (memory self) @ [entry_of now did dn f r ts] \<and>
           consolidated_feedback (memory self') = consolidated_feedback (memory self))"
    using window_at_most_ten [of str_nat "sample_calls 10" "lit ''user_demo_001''" "lit ''2025-01-15T11:59:00''"]
    unfolding sample_fresh_def by blast
  from fresh_calls_shape [of str_nat "sample_calls 10" "lit ''user_demo_001''" "lit ''2025-01-15T11:59:00''"] run
  have rec: "recent_feedbacks (memory self) = window (inserted (sample_calls 10))"
    and con: "consolidated_feedback (memory self) = fold_summary str_nat (overflow (inserted (sample_calls 10))) []"
    unfolding sample_fresh_def by auto
  have len: "length (recent_feedbacks (memory self)) = 10"
    by (simp add: rec length_window length_sample)
  have emp: "consolidated_feedback (memory self) = []"
    by (simp add: con overflow_short length_sample fold_summary_def)
  from step [of "lit ''2025-01-16T09:30:00''" "lit ''D11''" "lit ''Dish 11''" "lit ''fine''" 4 None]
  obtain self' where "add_feedback str_nat (lit ''2025-01-16T09:30:00'') (lit ''D11'') (lit ''Dish 11'')
       (lit ''fine'') 4 None self = Inr self'"
    "recent_feedbacks (memory self') =
       tl (recent_feedbacks (memory self)) @
       [entry_of (lit ''2025-01-16T09:30:00'') (lit ''D11'') (lit ''Dish 11'') (lit ''fine'') 4 None]"
    "consolidated_feedback (memory self') =
       lit ''Older Feedback Summary:'' @ nl @
       summary_addition str_nat (hd (recent_feedbacks (memory self)))"
    using len emp by auto
  moreover from this len have "length (recent_feedbacks (memory self')) = 10"
    by (cases "recent_feedbacks (memory self)") auto
  ultimately show ?thesis using run len by blast
qed

subsection \<open>What the window holds\<close>





subsection \<open>The eleventh insertion\<close>



subsection \<open>Frames\<close>

text \<open>
  Claim C9. \<open>add_order\<close> leaves the recent window, the consolidated summary and the
  preferences unchanged; \<open>add_feedback\<close> returns and leaves the order history and the
  preferences unchanged; \<open>update_preferences\<close> leaves the order history, the recent window
  and the consolidated summary unchanged.
\<close>

theorem mutations_touch_own_section:
  "recent_feedbacks (memory (add_order now did dn rest p ts self)) = recent_feedbacks (memory self) \<and>
   consolidated_feedback (memory (add_order now did dn rest p ts self)) = consolidated_feedback (memory self) \<and>
   preferences (memory (add_order now did dn rest p ts self)) = preferences (memory self) \<and>
   (\<exists>self'. add_feedback str_r now did dn f r ts self = Inr self' \<and>
      order_history (memory self') = order_history (memory self) \<and>
      preferences (memory self') = preferences (memory self)) \<and>
   order_history (memory (update_preferences prefs self)) = order_history (memory self) \<and>
   recent_feedbacks (memory (update_preferences prefs self)) = recent_feedbacks (memory self) \<and>
   consolidated_feedback (memory (update_preferences prefs self)) = consolidated_feedback (memory self)"
  by (simp add: add_order_def update_preferences_def save_memory_def add_feedback_eq Let_def)

subsection \<open>The memory context\<close>





section \<open>Properties of the orchestrator\<close>

subsection \<open>Searching a string\<close>

lemma take_eq_prefix: "take (length sub) s = sub \<longleftrightarrow> prefix sub s"
  by (metis append_eq_conv_conj prefix_def take_is_prefix)

lemma find_from_absent: "find_from sub s i = - 1 \<longleftrightarrow> \<not> sublist sub s"
  by (induction s arbitrary: i) (auto simp: take_eq_prefix sublist_Cons_right)



lemma py_find_absent: "py_find s sub = - 1 \<longleftrightarrow> \<not> sublist sub s"
  by (simp add: py_find_def find_from_absent)





subsection \<open>Tag extraction\<close>

lemma extract_None:
  "extract_xml_content s tag = None \<longleftrightarrow>
     \<not> sublist (start_tag_of tag) s \<or> \<not> sublist (end_tag_of tag) s"
  by (simp add: extract_xml_content_def Let_def py_find_absent start_tag_of_def end_tag_of_def)



lemma process_query_no_filter:
  assumes "query_handler self (make_handler_input ct q mc) = Text s"
    and "extract_xml_content s (lit ''pandas_query'') = None \<or>
         extract_xml_content s (lit ''pandas_query'') = Some []"
  shows "process_query self now ct q mc = no_filter_outcome self now ct q mc s"
  using assms by (auto simp: process_query_def no_filter_outcome_def Let_def)




subsection \<open>A response without a tag\<close>

lemma generate_returns: "\<exists>msg dbg. generate self inp d = Inr (msg, dbg) \<and>
   database_searched dbg = database_searched d \<and> filtered_dishes_count dbg = filtered_dishes_count d \<and>
   filtered_data_preview dbg = filtered_data_preview d \<and> dbg_pandas_query dbg = dbg_pandas_query d"
  by (cases "recommendation_agent self inp") (auto simp: generate_def)

text \<open>
  Claim C6. When the handler's response contains neither the \<open>pandas_query\<close> tag nor the
  \<open>no_database_needed\<close> tag, \<open>process_query\<close> does not fail: it sends the recommendation
  agent the input without a dishes section, as its second and last message, and returns
  what the generation step makes of the answer, with \<open>debug_info\<close> recording that no
  search was made.
\<close>

theorem untagged_response_goes_to_generation:
  assumes reply: "query_handler self (make_handler_input ct q mc) = Text s"
    and no_query: "\<not> sublist (start_tag_of (lit ''pandas_query'')) s"
    and no_skip: "\<not> sublist (start_tag_of (lit ''no_database_needed'')) s"
  shows "process_query self now ct q mc = no_filter_outcome self now ct q mc s \<and>
         sent (process_query self now ct q mc) =
           [(QueryHandler, make_handler_input ct q mc),
            (RecommendationAgent,
             lit ''Current Time: '' @ ct @ nl @ nl @ lit ''User Query: '' @ q @ nl @ nl @
             lit ''User Memory Context:'' @ nl @ mc @ nl @ nl @ nl @ nl @
             lit ''Provide your personalized recommendation:'')] \<and>
         (\<exists>msg dbg. returned (process_query self now ct q mc) = Inr (msg, dbg) \<and>
            \<not> database_searched dbg \<and> filtered_dishes_count dbg = 0 \<and>
            filtered_data_preview dbg = None \<and> dbg_pandas_query dbg = None) \<and>
         (\<forall>t. recommendation_agent self (make_recommendation_input ct q mc []) = Text t \<longrightarrow>
            (\<exists>dbg. returned (process_query self now ct q mc) = Inr (t, dbg)))"
proof -
  have "extract_xml_content s (lit ''pandas_query'') = None"
    using no_query by (simp add: extract_None)
  then have eq: "process_query self now ct q mc = no_filter_outcome self now ct q mc s"
    using reply by (simp add: process_query_no_filter)
  have inp: "make_recommendation_input ct q mc [] =
             lit ''Current Time: '' @ ct @ nl @ nl @ lit ''User Query: '' @ q @ nl @ nl @
             lit ''User Memory Context:'' @ nl @ mc @ nl @ nl @ nl @ nl @
             lit ''Provide your personalized recommendation:''"
    by (simp add: make_recommendation_input_def)
  have "sent (process_query self now ct q mc) =
           [(QueryHandler, make_handler_input ct q mc),
            (RecommendationAgent, make_recommendation_input ct q mc [])]"
    by (simp add: eq no_filter_outcome_def)
  moreover have "\<exists>msg dbg. returned (process_query self now ct q mc) = Inr (msg, dbg) \<and>
            \<not> database_searched dbg \<and> filtered_dishes_count dbg = 0 \<and>
            filtered_data_preview dbg = None \<and> dbg_pandas_query dbg = None"
    unfolding eq no_filter_outcome_def
    using generate_returns [of self "make_recommendation_input ct q mc []"]
    by (metis (no_types, lifting) debug_info.select_convs outcome.select_convs(1))
  moreover have "\<exists>dbg. returned (process_query self now ct q mc) = Inr (t, dbg)"
    if "recommendation_agent self (make_recommendation_input ct q mc []) = Text t" for t
    using that by (simp add: eq no_filter_outcome_def generate_def)
  ultimately show ?thesis using eq inp by auto
qed

lemma untagged_has_no_tag:
  "\<not> sublist (start_tag_of (lit ''pandas_query'')) (lit ''No search is needed here.'')"
  "\<not> sublist (start_tag_of (lit ''no_database_needed'')) (lit ''No search is needed here.'')"
  by (simp_all add: start_tag_of_def lit_def sublist_Cons_right)

theorem untagged_response_goes_to_generation_witness:
  "query_handler sample_agents_untagged
     (make_handler_input (lit ''Wednesday'') (lit ''anything sweet?'') (lit ''No previous history.'')) =
     Text (lit ''No search is needed here.'') \<and>
   \<not> sublist (start_tag_of (lit ''pandas_query'')) (lit ''No search is needed here.'') \<and>
   \<not> sublist (start_tag_of (lit ''no_database_needed'')) (lit ''No search is needed here.'') \<and>
   (\<exists>dbg. returned (process_query sample_agents_untagged (lit ''2025-01-15T12:00:00'')
            (lit ''Wednesday'') (lit ''anything sweet?'') (lit ''No previous history.'')) =
          Inr (lit ''1. **Masala Dosa - South Spice**'', dbg)) \<and>
   length (sent (process_query sample_agents_untagged (lit ''2025-01-15T12:00:00'')
            (lit ''Wednesday'') (lit ''anything sweet?'') (lit ''No previous history.''))) = 2"
proof -
  have h: "query_handler sample_agents_untagged
     (make_handler_input (lit ''Wednesday'') (lit ''anything sweet?'') (lit ''No previous history.'')) =
     Text (lit ''No search is needed here.'')"
    by (simp add: sample_agents_untagged_def sample_agents_def)
  have r: "recommendation_agent sample_agents_untagged
     (make_recommendation_input (lit ''Wednesday'') (lit ''anything sweet?'') (lit ''No previous history.'') []) =
     Text (lit ''1. **Masala Dosa - South Spice**'')"
    by (simp add: sample_agents_untagged_def sample_agents_def)
  from untagged_response_goes_to_generation [OF h untagged_has_no_tag, of "lit ''2025-01-15T12:00:00''"] r h untagged_has_no_tag
  show ?thesis by auto
qed

subsection \<open>The table that is not formatted\<close>

text \<open>A failure of either model call is caught: the result is an error message, and
  nothing is sent again.\<close>

lemma call_failures_are_caught:
  "query_handler self (make_handler_input ct q mc) = Raises e \<Longrightarrow>
     \<exists>dbg. returned (process_query self now ct q mc) =
             Inr (lit ''Sorry, an error occurred: '' @ str_exn e, dbg) \<and>
           sent (process_query self now ct q mc) = [(QueryHandler, make_handler_input ct q mc)]"
  by (simp add: process_query_def Let_def)

lemma generation_failures_are_caught:
  "recommendation_agent self inp = Raises e \<Longrightarrow>
     generate self inp d = Inr (lit ''Sorry, an error occurred: '' @ str_exn e, d)"
  by (simp add: generate_def)

text \<open>An exception leaves \<open>process_query\<close> only from the formatting of the filtered
  table.\<close>

lemma raises_only_from_formatting:
  assumes "returned (process_query self now ct q mc) = Inl e"
  shows "\<exists>s qr. query_handler self (make_handler_input ct q mc) = Text s \<and>
           extract_xml_content s (lit ''pandas_query'') = Some qr \<and> qr \<noteq> [] \<and>
           format_filtered_data self (fst (execute_pandas_query self qr)) = Inl e"
proof (cases "query_handler self (make_handler_input ct q mc)")
  case (Raises x)
  with assms show ?thesis by (simp add: process_query_def Let_def)
next
  case Invalid
  with assms show ?thesis by (simp add: process_query_def Let_def)
next
  case (Text s)
  show ?thesis
  proof (cases "extract_xml_content s (lit ''pandas_query'')")
    case None
    with Text assms generate_returns [of self] show ?thesis
      by (simp add: process_query_def Let_def) (metis Inl_Inr_False)
  next
    case (Some qr)
    show ?thesis
    proof (cases qr)
      case Nil
      with Some Text assms generate_returns [of self] show ?thesis
        by (simp add: process_query_def Let_def) (metis Inl_Inr_False)
    next
      case (Cons c cs)
      with Some Text assms generate_returns [of self] show ?thesis
        by (auto simp: process_query_def Let_def split: prod.splits sum.splits)
           (metis Inl_Inr_False)+
    qed
  qed
qed

lemma sample_extract:
  "extract_xml_content (lit ''<pandas_query>'' @ names_query @ lit ''</pandas_query>'') (lit ''pandas_query'') =
     Some names_query"
  by (simp add: extract_xml_content_def py_find_def names_query_def lit_def py_slice_def slice_bound_def strip_def is_space_def)

lemma clean_names_query: "clean_query names_query = names_query"
  by (simp add: clean_query_def strip_def startswith_def lit_def is_space_def names_query_def)

lemma sample_execute:
  "execute_pandas_query sample_agents names_query =
     (select_columns [lit ''dish_name''] create_food_database, [])"
  by (simp add: execute_pandas_query_def clean_names_query sample_agents_def sample_eval_def)

lemma restaurant_is_not_dish_name: "lit ''restaurant'' \<noteq> lit ''dish_name''"
  by (simp add: lit_def)

lemma format_names_only:
  assumes "df_rows df \<noteq> []"
  shows "format_filtered_data self (select_columns [lit ''dish_name''] df) =
           Inl (KeyError (lit ''restaurant''))"
proof -
  from assms obtain r rs where "df_rows df = r # rs" by (cases "df_rows df") auto
  then show ?thesis
    by (simp add: format_filtered_data_def df_empty_def select_columns_def format_row_def
        row_get_def bind_exn_def restaurant_is_not_dish_name)
qed

lemma seed_has_rows: "df_rows create_food_database \<noteq> []"
  by (simp add: create_food_database_def foods_data_def)

lemma sample_format:
  "format_filtered_data sample_agents (select_columns [lit ''dish_name''] create_food_database) =
     Inl (KeyError (lit ''restaurant''))"
  by (rule format_names_only [OF seed_has_rows])

lemma process_query_format_raises:
  assumes "query_handler self (make_handler_input ct q mc) = Text s"
    and "extract_xml_content s (lit ''pandas_query'') = Some qr" and "qr \<noteq> []"
    and "format_filtered_data self (fst (execute_pandas_query self qr)) = Inl e"
  shows "returned (process_query self now ct q mc) = Inl e"
  using assms by (cases qr) (auto simp: process_query_def Let_def split: prod.splits)

lemma names_query_nonempty: "names_query \<noteq> []"
  by (simp add: names_query_def lit_def)

text \<open>
  Claim C3 says that \<open>process_query\<close> never raises. In the sample world the handler asks
  for \<open>food_df[['dish_name']]\<close>; the evaluation succeeds with a table of twenty rows and the
  one column \<open>dish_name\<close>; \<open>_format_filtered_data\<close>, which runs outside any \<open>try\<close>, reads
  \<open>row['restaurant']\<close>, and the \<open>KeyError\<close> leaves \<open>process_query\<close>, whatever the query and
  the memory context.
\<close>

theorem process_query_raises_on_projection:
  "returned (process_query sample_agents now current_time user_query memory_context) =
     Inl (KeyError (lit ''restaurant''))"
proof (rule process_query_format_raises)
  show "query_handler sample_agents (make_handler_input current_time user_query memory_context) =
          Text (lit ''<pandas_query>'' @ names_query @ lit ''</pandas_query>'')"
    by (simp add: sample_agents_def)
  show "extract_xml_content (lit ''<pandas_query>'' @ names_query @ lit ''</pandas_query>'')
          (lit ''pandas_query'') = Some names_query"
    by (rule sample_extract)
  show "names_query \<noteq> []" by (rule names_query_nonempty)
  show "format_filtered_data sample_agents (fst (execute_pandas_query sample_agents names_query)) =
          Inl (KeyError (lit ''restaurant''))"
    by (simp add: sample_execute sample_format)
qed

subsection \<open>A failed filter\<close>

text \<open>
  Claim C2, as amended. When the evaluation of the cleaned query raises an error,
  \<open>_execute_pandas_query\<close> returns the empty table and prints the error and the query;
  when it gives an object that is not a \<open>DataFrame\<close>, it returns the empty table and prints
  nothing. Both returns are the return for a query that evaluates to the empty table.
\<close>

theorem failed_filter_gives_empty_table:
  "(\<forall>e. py_eval self (clean_query query) = Inl e \<longrightarrow>
      execute_pandas_query self query =
        (empty_DataFrame,
         [lit ''Error executing pandas query: '' @ str_exn e,
          lit ''Query was: '' @ clean_query query])) \<and>
   (py_eval self (clean_query query) = Inr PyOther \<longrightarrow>
      execute_pandas_query self query = (empty_DataFrame, [])) \<and>
   (py_eval self (clean_query query) = Inr (PyDataFrame empty_DataFrame) \<longrightarrow>
      execute_pandas_query self query = (empty_DataFrame, []))"
  by (simp add: execute_pandas_query_def Let_def)

lemma sample_clean:
  "clean_query (lit ''1/0'') = lit ''1/0''"
  "clean_query (lit ''len(food_df)'') = lit ''len(food_df)''"
  "clean_query (lit ''pd.DataFrame()'') = lit ''pd.DataFrame()''"
  by (simp_all add: clean_query_def strip_def startswith_def lit_def is_space_def)

lemma sample_eval_values:
  "py_eval sample_agents (lit ''1/0'') = Inl (OtherError (lit ''division by zero''))"
  "py_eval sample_agents (lit ''len(food_df)'') = Inr PyOther"
  "py_eval sample_agents (lit ''pd.DataFrame()'') = Inr (PyDataFrame empty_DataFrame)"
  by (simp_all add: sample_agents_def sample_eval_def names_query_def lit_def)

theorem failed_filter_gives_empty_table_witness:
  "execute_pandas_query sample_agents (lit ''1/0'') =
     (empty_DataFrame,
      [lit ''Error executing pandas query: '' @ lit ''division by zero'',
       lit ''Query was: '' @ lit ''1/0'']) \<and>
   execute_pandas_query sample_agents (lit ''len(food_df)'') = (empty_DataFrame, []) \<and>
   execute_pandas_query sample_agents (lit ''pd.DataFrame()'') = (empty_DataFrame, [])"
  using failed_filter_gives_empty_table [of sample_agents "lit ''1/0''"]
    failed_filter_gives_empty_table [of sample_agents "lit ''len(food_df)''"]
    failed_filter_gives_empty_table [of sample_agents "lit ''pd.DataFrame()''"]
  by (simp add: sample_clean sample_eval_values)

text \<open>
  Claim C2 as stated has the failure reported to the caller. In the sample world
  \<open>len(food_df)\<close> evaluates to a number and \<open>pd.DataFrame()\<close> to the empty table; the filter
  operation gives the caller the same for both, and prints nothing.
\<close>

theorem failed_filter_is_not_reported:
  "py_eval sample_agents (clean_query (lit ''len(food_df)'')) = Inr PyOther \<and>
   py_eval sample_agents (clean_query (lit ''pd.DataFrame()'')) = Inr (PyDataFrame empty_DataFrame) \<and>
   execute_pandas_query sample_agents (lit ''len(food_df)'') =
   execute_pandas_query sample_agents (lit ''pd.DataFrame()'') \<and>
   snd (execute_pandas_query sample_agents (lit ''len(food_df)'')) = []"
  by (simp add: execute_pandas_query_def sample_clean sample_eval_values)

section \<open>Properties of the catalog\<close>








end
